theory Spec2Isabelle
  imports Main "HOL-Library.AList" "HOL-Library.Log_Nat"
begin

section \<open>Data model\<close>

text \<open>
  The review state of \<^verbatim>\<open>codereview.py\<close> is the Python dict
  \<^verbatim>\<open>{"files": {path: {"lines": n, "reviewed": b}}, "total_lines": n}\<close>.
  A Python dict keeps its keys in insertion order and assigning to a key that is
  already present keeps the key's position, which is what \<open>AList.update\<close> does on an
  association list. Python's integers are unbounded, hence \<open>int\<close>.

  A Python \<^verbatim>\<open>str\<close> is modelled as the list of its code points, restricted to the
  code points below 256: \<open>CHR 0xB2\<close> is U+00B2 (SUPERSCRIPT TWO), not a byte of an
  encoding.
\<close>

record file_entry =
  lines :: int
  reviewed :: bool

record review_state =
  files :: "(string \<times> file_entry) list"
  total_lines :: int

text \<open>
  One element of the \<^verbatim>\<open>files\<close> array answered by \<^verbatim>\<open>gh pr view --json title,body,files\<close>.
  \<^verbatim>\<open>f.get("additions", 0)\<close> and \<^verbatim>\<open>f.get("deletions", 0)\<close> default a missing key
  to 0, so both are optional here; the path is taken as present.
\<close>

record pr_file =
  path :: string
  additions :: "int option"
  deletions :: "int option"

record pr_data =
  title :: string
  body :: "string option"
  pr_files :: "pr_file list"

record config =
  jira_base :: "string option"

datatype error =
  NameError | AttributeError | EOFError | SystemExit | ValueError | OverflowError
  | ZeroDivisionError | IndexError | ReviewActionError

datatype msg =
  MsgPrompt string
  | MsgUnableToDeterminePR
  | MsgGhViewFailed
  | MsgSummary string
  | MsgJiraUrl string string
  | MsgJira string
  | MsgBody string
  | MsgFileSummary
  | MsgFileLine "nat option" bool string int
  | MsgPrKey string
  | MsgStatePath string
  | MsgTotal nat int
  | MsgNoState
  | MsgStatus int int nat
  | MsgUnknownFile
  | MsgAlreadyReviewed string
  | MsgMarked int string
  | MsgInvalidId string
  | MsgPrintFile string
  | MsgListLine nat string int
  | MsgCommands
  | MsgUnknownCommand
  | MsgNewline
  | MsgApprovedHeader
  | MsgApproved string

text \<open>
  The part of the machine the program touches: the state files (by file name), the lines
  still to be read from standard input, what was printed, and the paths the review action
  was run on.
\<close>

record world =
  disk :: "string \<rightharpoonup> review_state"
  stdin :: "string list"
  stdout :: "msg list"
  spawned :: "string list"

text \<open>
  The external collaborators, fixed during a run: the repository root answered by
  \<^verbatim>\<open>git rev-parse\<close> (or the working directory), the pull-request number as a string
  (\<open>None\<close> when \<^verbatim>\<open>gh\<close> or \<^verbatim>\<open>git\<close> fails), the answer of \<^verbatim>\<open>gh pr view\<close> (\<open>None\<close> when it
  fails), the outcome of building and running the review command for a path (\<open>Some e\<close>
  when \<^verbatim>\<open>shlex\<close> or \<^verbatim>\<open>subprocess.run\<close> raises), the regular-expression search of
  \<^verbatim>\<open>find_jira\<close>, and the parsed configuration file.
\<close>

record env =
  root :: string
  pr_number :: "string option"
  pr_view :: "pr_data option"
  review_action :: "string \<Rightarrow> error option"
  jira_search :: "string \<Rightarrow> string option"
  config_file :: config

type_synonym 'a io = "world \<Rightarrow> (error + 'a) \<times> world"

definition bind_io :: "'a io \<Rightarrow> ('a \<Rightarrow> 'b io) \<Rightarrow> 'b io" where
  "bind_io m f w = (case m w of (Inl e, w') \<Rightarrow> (Inl e, w') | (Inr x, w') \<Rightarrow> f x w')"

definition return_io :: "'a \<Rightarrow> 'a io" where
  "return_io x w = (Inr x, w)"

definition raise_io :: "error \<Rightarrow> 'a io" where
  "raise_io e w = (Inl e, w)"

definition print :: "msg \<Rightarrow> unit io" where
  "print m w = (Inr (), w\<lparr>stdout := stdout w @ [m]\<rparr>)"

text \<open>\<^verbatim>\<open>input(prompt)\<close>: writes the prompt, reads one line, raises EOFError at end of input.\<close>

definition input :: "string \<Rightarrow> string io" where
  "input prompt w =
     (case stdin w of
        [] \<Rightarrow> (Inl EOFError, w\<lparr>stdout := stdout w @ [MsgPrompt prompt]\<rparr>)
      | l # ls \<Rightarrow> (Inr l, w\<lparr>stdin := ls, stdout := stdout w @ [MsgPrompt prompt]\<rparr>))"

section \<open>Strings and paths\<close>

definition py_isspace :: "char \<Rightarrow> bool" where
  "py_isspace c =
     (let n = (of_char c :: nat)
      in (9 \<le> n \<and> n \<le> 13) \<or> (28 \<le> n \<and> n \<le> 32) \<or> n = 133 \<or> n = 160)"

definition py_strip :: "string \<Rightarrow> string" where
  "py_strip s = rev (dropWhile py_isspace (rev (dropWhile py_isspace s)))"

definition py_lower_char :: "char \<Rightarrow> char" where
  "py_lower_char c =
     (let n = (of_char c :: nat)
      in if (65 \<le> n \<and> n \<le> 90) \<or> (192 \<le> n \<and> n \<le> 222 \<and> n \<noteq> 215)
         then char_of (n + 32) else c)"

definition py_lower :: "string \<Rightarrow> string" where
  "py_lower s = map py_lower_char s"

text \<open>\<^verbatim>\<open>os.path.join(a, b)\<close> of posixpath, for two components.\<close>

definition os_path_join :: "string \<Rightarrow> string \<Rightarrow> string" where
  "os_path_join a b =
     (if b \<noteq> [] \<and> hd b = CHR ''/'' then b
      else if a = [] \<or> last a = CHR ''/'' then a @ b
      else a @ ''/'' @ b)"

definition state_file :: "env \<Rightarrow> string \<Rightarrow> string" where
  "state_file en pr_key =
     os_path_join (os_path_join (os_path_join (root en) ''.git'') ''codereview_state'')
       (pr_key @ ''.json'')"

section \<open>Collaborators\<close>

definition current_pr_key :: "env \<Rightarrow> string io" where
  "current_pr_key en =
     (case pr_number en of
        None \<Rightarrow> bind_io (print MsgUnableToDeterminePR) (\<lambda>_. raise_io SystemExit)
      | Some n \<Rightarrow> return_io n)"

definition gh_view :: "env \<Rightarrow> pr_data io" where
  "gh_view en =
     (case pr_view en of
        None \<Rightarrow> bind_io (print MsgGhViewFailed) (\<lambda>_. raise_io SystemExit)
      | Some d \<Rightarrow> return_io d)"

definition load_config :: "env \<Rightarrow> config" where
  "load_config en = config_file en"

definition find_jira :: "env \<Rightarrow> string \<Rightarrow> string option" where
  "find_jira en text = jira_search en text"

definition yn :: "string \<Rightarrow> bool \<Rightarrow> bool io" where
  "yn prompt dflt =
     bind_io (input (prompt @ '' ['' @ (if dflt then ''Y/n'' else ''y/N'') @ ''] ''))
       (\<lambda>l. let ans = py_lower (py_strip l)
            in if ans = [] then return_io dflt else return_io (ans = ''y''))"

definition run_review_cmd :: "env \<Rightarrow> string \<Rightarrow> unit io" where
  "run_review_cmd en p w =
     (case review_action en p of
        Some e \<Rightarrow> (Inl e, w)
      | None \<Rightarrow> (Inr (), w\<lparr>spawned := spawned w @ [p]\<rparr>))"

section \<open>State store\<close>

definition save_state :: "env \<Rightarrow> review_state \<Rightarrow> string \<Rightarrow> unit io" where
  "save_state en state pr_key =
     bind_io (print (MsgPrKey pr_key)) (\<lambda>_.
     bind_io (print (MsgStatePath (state_file en pr_key))) (\<lambda>_.
     (\<lambda>w. (Inr (), w\<lparr>disk := (disk w)(state_file en pr_key \<mapsto> state)\<rparr>))))"

section \<open>Overview\<close>

text \<open>
  The names bound at module level of \<^verbatim>\<open>codereview.py\<close> (imports, the constant and the
  functions). A name that is neither local nor among them nor a builtin raises NameError
  when it is read; every name that is bound is bound to a module or a function, which is
  true in a condition.
\<close>

definition module_names :: "string list" where
  "module_names =
     [''argparse'', ''json'', ''os'', ''re'', ''shlex'', ''subprocess'', ''sys'',
      ''repo_root'', ''CONFIG_FILE'', ''current_pr_key'', ''state_file'', ''load_config'',
      ''yn'', ''load_state'', ''save_state'', ''run_review_cmd'', ''gh_view'', ''find_jira'',
      ''cmd_overview'', ''cmd_status'', ''cmd_review'', ''cmd_reset'',
      ''_interactive_session'', ''main'']"

definition load_global :: "string \<Rightarrow> bool io" where
  "load_global name =
     (if name \<in> set module_names then return_io True else raise_io NameError)"

definition file_lines :: "pr_file \<Rightarrow> int" where
  "file_lines f =
     (case additions f of None \<Rightarrow> 0 | Some a \<Rightarrow> a)
     + (case deletions f of None \<Rightarrow> 0 | Some d \<Rightarrow> d)"

text \<open>Lines 142 to 146 of the loop body: the entry, the total and the path list.\<close>

definition overview_entry :: "review_state \<times> string list \<Rightarrow> pr_file \<Rightarrow> review_state \<times> string list" where
  "overview_entry acc f =
     (case acc of (state, paths) \<Rightarrow>
        (state\<lparr>files := AList.update (path f) \<lparr>lines = file_lines f, reviewed = False\<rparr> (files state),
               total_lines := total_lines state + file_lines f\<rparr>,
         paths @ [path f]))"

text \<open>
  The loop of lines 141 to 151. After the entry is stored, line 147 reads the name
  \<^verbatim>\<open>reviewed\<close>, which \<^verbatim>\<open>cmd_overview\<close> never assigns.
\<close>

fun overview_loop ::
  "bool \<Rightarrow> nat \<Rightarrow> pr_file list \<Rightarrow> review_state \<times> string list \<Rightarrow> (review_state \<times> string list) io" where
  "overview_loop interactive idx [] acc = return_io acc"
| "overview_loop interactive idx (f # fs) acc =
     (let acc' = overview_entry acc f
      in bind_io (load_global ''reviewed'') (\<lambda>mark.
         bind_io (print (MsgFileLine (if interactive then Some idx else None) mark (path f) (file_lines f))) (\<lambda>_.
         overview_loop interactive (Suc idx) fs acc')))"

text \<open>Lines 129 to 134: the ticket line, printed when \<^verbatim>\<open>find_jira\<close> answers a match.\<close>

definition print_jira :: "env \<Rightarrow> config \<Rightarrow> string \<Rightarrow> string \<Rightarrow> unit io" where
  "print_jira en cfg title' body' =
     (case find_jira en (title' @ [CHR 0x0A] @ body') of
        None \<Rightarrow> return_io ()
      | Some jira \<Rightarrow>
          if jira = [] then return_io ()
          else (case jira_base cfg of
                  None \<Rightarrow> print (MsgJira jira)
                | Some base \<Rightarrow>
                    if base \<noteq> [] then print (MsgJiraUrl base jira) else print (MsgJira jira)))"

text \<open>
  Lines 124 to 153 of \<^verbatim>\<open>cmd_overview\<close>; the result is what line 156 passes on.
  \<^verbatim>\<open>data.get("body").strip()\<close> raises AttributeError when the body is null.
\<close>

definition overview_build :: "env \<Rightarrow> config \<Rightarrow> bool \<Rightarrow> (string list \<times> string) io" where
  "overview_build en cfg interactive =
     bind_io (current_pr_key en) (\<lambda>pr_key.
     bind_io (gh_view en) (\<lambda>data.
     let title' = py_strip (title data) in
     bind_io (case body data of None \<Rightarrow> raise_io AttributeError | Some b \<Rightarrow> return_io (py_strip b)) (\<lambda>body'.
     bind_io (print (MsgSummary title')) (\<lambda>_.
     bind_io (print_jira en cfg title' body') (\<lambda>_.
     bind_io (if body' \<noteq> [] then print (MsgBody body') else return_io ()) (\<lambda>_.
     bind_io (print MsgFileSummary) (\<lambda>_.
     bind_io (overview_loop interactive 1 (pr_files data) (\<lparr>files = [], total_lines = 0\<rparr>, [])) (\<lambda>res.
     case res of (state, paths) \<Rightarrow>
     bind_io (save_state en state pr_key) (\<lambda>_.
     bind_io (print (MsgTotal (length (pr_files data)) (total_lines state))) (\<lambda>_.
     return_io (paths, pr_key)))))))))))"

text \<open>What the overview prints before the loop.\<close>

definition jira_lines :: "env \<Rightarrow> config \<Rightarrow> string \<Rightarrow> string \<Rightarrow> msg list" where
  "jira_lines en cfg t b =
     (case find_jira en (t @ [CHR 0x0A] @ b) of
        None \<Rightarrow> []
      | Some jira \<Rightarrow>
          if jira = [] then []
          else (case jira_base cfg of
                  None \<Rightarrow> [MsgJira jira]
                | Some base \<Rightarrow> if base \<noteq> [] then [MsgJiraUrl base jira] else [MsgJira jira]))"

definition overview_header :: "env \<Rightarrow> config \<Rightarrow> string \<Rightarrow> string \<Rightarrow> msg list" where
  "overview_header en cfg t b =
     MsgSummary t # jira_lines en cfg t b @ (if b \<noteq> [] then [MsgBody b] else []) @ [MsgFileSummary]"

lemmas io_defs = bind_io_def return_io_def raise_io_def print_def

lemma save_state_eq:
  "save_state en s k w =
     (Inr (), w\<lparr>stdout := stdout w @ [MsgPrKey k, MsgStatePath (state_file en k)],
               disk := (disk w)(state_file en k \<mapsto> s)\<rparr>)"
  by (simp add: save_state_def io_defs)

lemma print_jira_eq:
  "print_jira en cfg t b w = (Inr (), w\<lparr>stdout := stdout w @ jira_lines en cfg t b\<rparr>)"
  by (simp add: print_jira_def jira_lines_def return_io_def print_def split: option.splits)

text \<open>No file gets past line 147: the loop ends well on the empty list only.\<close>

lemma overview_loop_eq:
  "overview_loop i idx fs acc w = (if fs = [] then (Inr acc, w) else (Inl NameError, w))"
  by (cases fs) (simp_all add: load_global_def module_names_def io_defs)

lemma overview_build_eq:
  assumes "pr_number en = Some k" and "pr_view en = Some d" and "body d = Some b"
  shows "overview_build en cfg i w =
     (if pr_files d = []
      then (Inr ([], k),
            w\<lparr>stdout := stdout w @ overview_header en cfg (py_strip (title d)) (py_strip b)
                           @ [MsgPrKey k, MsgStatePath (state_file en k), MsgTotal 0 0],
              disk := (disk w)(state_file en k \<mapsto> \<lparr>files = [], total_lines = 0\<rparr>)\<rparr>)
      else (Inl NameError,
            w\<lparr>stdout := stdout w @ overview_header en cfg (py_strip (title d)) (py_strip b)\<rparr>))"
  using assms
  by (simp add: overview_build_def current_pr_key_def gh_view_def overview_header_def
      print_jira_eq overview_loop_eq save_state_eq io_defs Let_def del: overview_loop.simps)

lemma overview_build_no_pr:
  "pr_number en = None \<Longrightarrow>
   overview_build en cfg i w = (Inl SystemExit, w\<lparr>stdout := stdout w @ [MsgUnableToDeterminePR]\<rparr>)"
  by (simp add: overview_build_def current_pr_key_def io_defs)

lemma overview_build_no_view:
  "pr_number en = Some k \<Longrightarrow> pr_view en = None \<Longrightarrow>
   overview_build en cfg i w = (Inl SystemExit, w\<lparr>stdout := stdout w @ [MsgGhViewFailed]\<rparr>)"
  by (simp add: overview_build_def current_pr_key_def gh_view_def io_defs)

lemma overview_build_no_body:
  "pr_number en = Some k \<Longrightarrow> pr_view en = Some d \<Longrightarrow> body d = None \<Longrightarrow>
   overview_build en cfg i w = (Inl AttributeError, w)"
  by (simp add: overview_build_def current_pr_key_def gh_view_def io_defs Let_def)

lemma overview_build_nonempty:
  assumes "pr_number en = Some k" and "pr_view en = Some d" and "body d = Some b"
    and "pr_files d \<noteq> []"
  shows "overview_build en cfg i w =
     (Inl NameError, w\<lparr>stdout := stdout w @ overview_header en cfg (py_strip (title d)) (py_strip b)\<rparr>)"
  using assms(4) by (simp add: overview_build_eq[OF assms(1,2,3)])

lemma overview_build_cases:
  obtains "pr_number en = None"
  | k where "pr_number en = Some k" "pr_view en = None"
  | k d where "pr_number en = Some k" "pr_view en = Some d" "body d = None"
  | k d b where "pr_number en = Some k" "pr_view en = Some d" "body d = Some b"
  by (cases "pr_number en"; cases "pr_view en"; cases "body (the (pr_view en))") auto

lemma overview_build_Inr:
  assumes "overview_build en cfg i w = (Inr (paths, k), w')"
  shows "paths = [] \<and> disk w' (state_file en k) = Some \<lparr>files = [], total_lines = 0\<rparr>"
proof (cases en rule: overview_build_cases)
  case 1
  with assms show ?thesis by (simp add: overview_build_no_pr)
next
  case (2 k')
  with assms show ?thesis by (simp add: overview_build_no_view)
next
  case (3 k' d)
  with assms show ?thesis by (simp add: overview_build_no_body)
next
  case (4 k' d b)
  from assms show ?thesis
    by (auto simp: overview_build_eq[OF 4] split: if_splits)
qed

text \<open>
  \<^verbatim>\<open>load_state\<close>. Without a state file the user is asked whether to run the overview;
  on yes, \<^verbatim>\<open>cmd_overview(load_config())\<close> runs with \<^verbatim>\<open>interactive=False\<close> (so line 155
  ends it) and the load is tried again. Every retry has read one more line of input.
\<close>

lemma stdin_save_state: "save_state en s k w = (r, w') \<Longrightarrow> stdin w' = stdin w"
  by (auto simp: save_state_eq)

lemma stdin_overview_build:
  assumes "overview_build en cfg interactive w = (r, w')"
  shows "stdin w' = stdin w"
proof (cases en rule: overview_build_cases)
  case 1
  with assms show ?thesis by (auto simp: overview_build_no_pr)
next
  case (2 k)
  with assms show ?thesis by (auto simp: overview_build_no_view)
next
  case (3 k d)
  with assms show ?thesis by (auto simp: overview_build_no_body)
next
  case (4 k d b)
  from assms show ?thesis
    by (auto simp: overview_build_eq[OF 4] split: if_splits)
qed

lemma stdin_input: "input p w = (Inr l, w') \<Longrightarrow> length (stdin w') < length (stdin w)"
  by (auto simp: input_def split: list.splits)

lemma stdin_yn: "yn p d w = (Inr b, w') \<Longrightarrow> length (stdin w') < length (stdin w)"
  by (auto simp: yn_def bind_io_def return_io_def Let_def dest!: stdin_input
      split: prod.splits sum.splits if_splits)

function load_state :: "env \<Rightarrow> string \<Rightarrow> review_state option io" where
  "load_state en pr_key w =
     (case disk w (state_file en pr_key) of
        Some state \<Rightarrow> (Inr (Some state), w)
      | None \<Rightarrow>
          (case yn ''No state file. Run overview?'' False w of
             (Inl e, w1) \<Rightarrow> (Inl e, w1)
           | (Inr False, w1) \<Rightarrow> (Inr None, w1)
           | (Inr True, w1) \<Rightarrow>
               (case overview_build en (load_config en) False w1 of
                  (Inl e, w2) \<Rightarrow> (Inl e, w2)
                | (Inr _, w2) \<Rightarrow> load_state en pr_key w2)))"
  by pat_completeness auto
termination
  apply (relation "measure (\<lambda>(en, pr_key, w). length (stdin w))")
   apply simp
  by (auto dest!: stdin_yn[OF sym] stdin_overview_build[OF sym])

declare load_state.simps [simp del]

section \<open>Status\<close>

text \<open>
  The arithmetic of line 167, \<^verbatim>\<open>int((reviewed / total) * 100)\<close>. Python's \<^verbatim>\<open>/\<close> on two
  integers answers the binary64 number nearest to the quotient (ties to even) and raises
  OverflowError beyond the binary64 range; the product with 100 is rounded the same way
  and overflows to infinity; \<^verbatim>\<open>int\<close> drops the fraction and raises OverflowError on
  infinity. A finite binary64 number is modelled as the rational it denotes.
\<close>

definition round_half_even :: "rat \<Rightarrow> int" where
  "round_half_even x =
     (let f = \<lfloor>x\<rfloor>; d = x - of_int f
      in if d < 1 / 2 then f else if 1 / 2 < d then f + 1 else if even f then f else f + 1)"

text \<open>The exponent \<open>e\<close> with \<open>2 powi e \<le> \<bar>x\<bar> < 2 powi (e + 1)\<close>, for \<open>x \<noteq> 0\<close>.\<close>

definition binade :: "rat \<Rightarrow> int" where
  "binade x =
     (case quotient_of x of (p, q) \<Rightarrow>
        (let d = bitlen \<bar>p\<bar> - bitlen q in if 2 powi d \<le> \<bar>x\<bar> then d else d - 1))"

text \<open>Rounding to 53 significant bits, with the spacing of the subnormal numbers below \<open>2 powi (-1022)\<close>.\<close>

definition round_binary64 :: "rat \<Rightarrow> rat" where
  "round_binary64 x =
     (if x = 0 then 0
      else (let u = 2 powi (max (binade x) (- 1022) - 52)
            in of_int (round_half_even (x / u)) * u))"

datatype pyfloat = Finite rat | Infinity bool

definition int_truediv :: "int \<Rightarrow> int \<Rightarrow> error + rat" where
  "int_truediv a b =
     (if b = 0 then Inl ZeroDivisionError
      else (let y = round_binary64 (of_int a / of_int b)
            in if 2 ^ 1024 \<le> \<bar>y\<bar> then Inl OverflowError else Inr y))"

definition float_mul :: "rat \<Rightarrow> rat \<Rightarrow> pyfloat" where
  "float_mul x y =
     (let z = round_binary64 (x * y)
      in if 2 ^ 1024 \<le> \<bar>z\<bar> then Infinity (z < 0) else Finite z)"

definition int_of_float :: "pyfloat \<Rightarrow> error + int" where
  "int_of_float x =
     (case x of
        Infinity _ \<Rightarrow> Inl OverflowError
      | Finite r \<Rightarrow> Inr (if 0 \<le> r then \<lfloor>r\<rfloor> else \<lceil>r\<rceil>))"

definition percent :: "int \<Rightarrow> int \<Rightarrow> error + int" where
  "percent reviewed_sum tot =
     (if tot \<noteq> 0
      then (case int_truediv reviewed_sum tot of
              Inl e \<Rightarrow> Inl e
            | Inr q \<Rightarrow> int_of_float (float_mul q 100))
      else Inr 100)"

definition reviewed_lines :: "review_state \<Rightarrow> int" where
  "reviewed_lines state = sum_list (map lines (filter reviewed (map snd (files state))))"

definition files_left :: "review_state \<Rightarrow> nat" where
  "files_left state = length (filter (\<lambda>f. \<not> reviewed f) (map snd (files state)))"

definition cmd_status :: "env \<Rightarrow> string \<Rightarrow> unit io" where
  "cmd_status en pr_key =
     bind_io (load_state en pr_key) (\<lambda>st.
       case st of
         None \<Rightarrow> print MsgNoState
       | Some state \<Rightarrow>
           (let tot = total_lines state;
                reviewed_sum = reviewed_lines state;
                remaining = tot - reviewed_sum
            in case percent reviewed_sum tot of
                 Inl e \<Rightarrow> raise_io e
               | Inr pct \<Rightarrow> print (MsgStatus remaining pct (files_left state))))"

section \<open>Review\<close>

definition cmd_review :: "env \<Rightarrow> string \<Rightarrow> string \<Rightarrow> string \<Rightarrow> bool io" where
  "cmd_review en p mode pr_key =
     bind_io (load_state en pr_key) (\<lambda>st.
       case st of
         None \<Rightarrow> bind_io (print MsgUnknownFile) (\<lambda>_. return_io False)
       | Some state \<Rightarrow>
           (case map_of (files state) p of
              None \<Rightarrow> bind_io (print MsgUnknownFile) (\<lambda>_. return_io False)
            | Some entry \<Rightarrow>
                if reviewed entry
                then bind_io (print (MsgAlreadyReviewed p)) (\<lambda>_. return_io False)
                else
                  bind_io (run_review_cmd en p) (\<lambda>_.
                  bind_io (yn ''Mark reviewed?'' False) (\<lambda>ans.
                    if \<not> ans then return_io False
                    else
                      (let entry' = entry\<lparr>reviewed := True\<rparr>;
                           state' = state\<lparr>files := AList.update p entry' (files state)\<rparr>
                       in bind_io (save_state en state' pr_key) (\<lambda>_.
                          bind_io (print (MsgMarked (lines entry') mode)) (\<lambda>_.
                          return_io True)))))))"

section \<open>Interactive session: selectors\<close>

text \<open>
  \<^verbatim>\<open>str.isdigit\<close> on the code points below 256: the ten decimal digits and the
  superscripts U+00B2, U+00B3 and U+00B9, which are digits for \<^verbatim>\<open>isdigit\<close> and are not
  decimal.
\<close>

definition is_decimal_char :: "char \<Rightarrow> bool" where
  "is_decimal_char c = (let n = (of_char c :: nat) in 48 \<le> n \<and> n \<le> 57)"

definition py_isdigit_char :: "char \<Rightarrow> bool" where
  "py_isdigit_char c =
     (let n = (of_char c :: nat) in is_decimal_char c \<or> n = 178 \<or> n = 179 \<or> n = 185)"

definition py_isdigit :: "string \<Rightarrow> bool" where
  "py_isdigit s = (s \<noteq> [] \<and> list_all py_isdigit_char s)"

text \<open>
  \<^verbatim>\<open>int(s)\<close> in base 10: blanks around, an optional sign, decimal digits with single
  underscores between them; anything else raises ValueError.
\<close>

fun int_literal_ok :: "string \<Rightarrow> bool" where
  "int_literal_ok [] = False"
| "int_literal_ok [c] = is_decimal_char c"
| "int_literal_ok (c # d # r) =
     (is_decimal_char c \<and> (if d = CHR ''_'' then int_literal_ok r else int_literal_ok (d # r)))"

definition digits_value :: "string \<Rightarrow> int" where
  "digits_value s = foldl (\<lambda>n c. 10 * n + (of_char c - 48)) 0 s"

definition py_int :: "string \<Rightarrow> error + int" where
  "py_int s =
     (let t = py_strip s;
          neg = (t \<noteq> [] \<and> hd t = CHR ''-'');
          u = (if t \<noteq> [] \<and> (hd t = CHR ''+'' \<or> hd t = CHR ''-'') then tl t else t)
      in if int_literal_ok u
         then Inr ((if neg then - 1 else 1) * digits_value (filter (\<lambda>c. c \<noteq> CHR ''_'') u))
         else Inl ValueError)"

text \<open>
  Indexing a list, \<^verbatim>\<open>xs[i]\<close>: positions \<open>0\<close> to \<open>len - 1\<close> from the front,
  \<open>-1\<close> down to \<open>-len\<close> from the back, IndexError elsewhere.
\<close>

definition py_index :: "'a list \<Rightarrow> int \<Rightarrow> error + 'a" where
  "py_index xs i =
     (if 0 \<le> i \<and> i < int (length xs) then Inr (xs ! nat i)
      else if i < 0 \<and> - int (length xs) \<le> i then Inr (xs ! nat (int (length xs) + i))
      else Inl IndexError)"

definition lift_io :: "error + 'a \<Rightarrow> 'a io" where
  "lift_io r = (case r of Inl e \<Rightarrow> raise_io e | Inr x \<Rightarrow> return_io x)"

text \<open>
  One step of the generator \<^verbatim>\<open>valid_ids\<close> (lines 203 to 206): \<open>False\<close> after the
  diagnostic of line 204, \<open>True\<close> when the token is yielded. In
  \<^verbatim>\<open>not i.isdigit() or not (1 <= int(i) <= len(paths))\<close> the conversion runs only when
  \<^verbatim>\<open>isdigit\<close> holds.
\<close>

definition valid_id :: "string list \<Rightarrow> string \<Rightarrow> bool io" where
  "valid_id paths i =
     (if \<not> py_isdigit i then bind_io (print (MsgInvalidId i)) (\<lambda>_. return_io False)
      else bind_io (lift_io (py_int i)) (\<lambda>n.
             if \<not> (1 \<le> n \<and> n \<le> int (length paths))
             then bind_io (print (MsgInvalidId i)) (\<lambda>_. return_io False)
             else return_io True))"

text \<open>\<^verbatim>\<open>paths[int(i) - 1]\<close> of lines 210 and 217.\<close>

definition selected_path :: "string list \<Rightarrow> string \<Rightarrow> string io" where
  "selected_path paths i =
     bind_io (lift_io (py_int i)) (\<lambda>n. lift_io (py_index paths (n - 1)))"

fun print_files :: "env \<Rightarrow> string list \<Rightarrow> string list \<Rightarrow> unit io" where
  "print_files en paths [] = return_io ()"
| "print_files en paths (i # ids) =
     bind_io (valid_id paths i) (\<lambda>ok.
       if \<not> ok then print_files en paths ids
       else
         bind_io (selected_path paths i) (\<lambda>p.
         bind_io (print (MsgPrintFile (os_path_join (root en) p))) (\<lambda>_.
         print_files en paths ids)))"

text \<open>\<^verbatim>\<open>review_files\<close>; the third argument carries \<^verbatim>\<open>approved_here\<close>.\<close>

fun review_files ::
  "env \<Rightarrow> string list \<Rightarrow> string \<Rightarrow> string \<Rightarrow> string list \<Rightarrow> string list \<Rightarrow> string list io" where
  "review_files en paths pr_key mode approved_here [] = return_io approved_here"
| "review_files en paths pr_key mode approved_here (i # ids) =
     bind_io (valid_id paths i) (\<lambda>ok.
       if \<not> ok then review_files en paths pr_key mode approved_here ids
       else
         bind_io (selected_path paths i) (\<lambda>p.
         bind_io (cmd_review en p mode pr_key) (\<lambda>marked.
         review_files en paths pr_key mode (if marked then approved_here @ [p] else approved_here) ids)))"

section \<open>Reading never puts lines back\<close>


definition reads_forward :: "'a io \<Rightarrow> bool" where
  "reads_forward m = (\<forall>w. length (stdin (snd (m w))) \<le> length (stdin w))"

lemma reads_forwardD: "reads_forward m \<Longrightarrow> m w = (r, w') \<Longrightarrow> length (stdin w') \<le> length (stdin w)"
  unfolding reads_forward_def by (metis snd_conv)

lemma reads_forward_bind:
  "reads_forward m \<Longrightarrow> (\<And>x. reads_forward (f x)) \<Longrightarrow> reads_forward (bind_io m f)"
  unfolding reads_forward_def bind_io_def
  apply (intro allI)
  subgoal for w
    apply (cases "m w")
    subgoal for r w1
      apply (cases r)
       apply (metis (mono_tags, lifting) old.prod.case old.sum.simps(5) snd_conv)
      by (metis (mono_tags, lifting) old.prod.case old.sum.simps(6) order.trans snd_conv)
    done
  done

lemma reads_forward_return [simp]: "reads_forward (return_io x)"
  by (simp add: reads_forward_def return_io_def)

lemma reads_forward_raise [simp]: "reads_forward (raise_io e)"
  by (simp add: reads_forward_def raise_io_def)

lemma reads_forward_print [simp]: "reads_forward (print m)"
  by (simp add: reads_forward_def print_def)

lemma reads_forward_lift [simp]: "reads_forward (lift_io r)"
  by (cases r) (simp_all add: lift_io_def)

lemma reads_forward_input [simp]: "reads_forward (input p)"
  by (simp add: reads_forward_def input_def split: list.splits)

lemma reads_forward_yn [simp]: "reads_forward (yn p d)"
  unfolding yn_def by (intro reads_forward_bind) (simp_all add: Let_def)

lemma reads_forward_save_state [simp]: "reads_forward (save_state en s k)"
  by (simp add: reads_forward_def) (metis stdin_save_state surjective_pairing order_refl)

lemma reads_forward_run_review_cmd [simp]: "reads_forward (run_review_cmd en p)"
  by (simp add: reads_forward_def run_review_cmd_def split: option.splits)

lemma reads_forward_load_state [simp]: "reads_forward (load_state en k)"
proof -
  have "length (stdin (snd (load_state en k w))) \<le> length (stdin w)" for w
  proof (induction en k w rule: load_state.induct)
    case (1 en pr_key w)
    show ?case
    proof (cases "disk w (state_file en pr_key)")
      case (Some s)
      then show ?thesis by (subst load_state.simps) simp
    next
      case None
      obtain r1 w1 where y: "yn ''No state file. Run overview?'' False w = (r1, w1)"
        by (cases "yn ''No state file. Run overview?'' False w")
      have le1: "length (stdin w1) \<le> length (stdin w)"
        using reads_forwardD[OF reads_forward_yn y] .
      show ?thesis
      proof (cases r1)
        case (Inl e)
        with None y le1 show ?thesis by (subst load_state.simps) simp
      next
        case (Inr b)
        show ?thesis
        proof (cases b)
          case False
          with Inr None y le1 show ?thesis by (subst load_state.simps) simp
        next
          case True
          obtain r2 w2 where o: "overview_build en (load_config en) False w1 = (r2, w2)"
            by (cases "overview_build en (load_config en) False w1")
          have eq2: "stdin w2 = stdin w1" using stdin_overview_build[OF o] .
          show ?thesis
          proof (cases r2)
            case (Inl e)
            with True Inr None y o le1 eq2 show ?thesis by (subst load_state.simps) simp
          next
            case (Inr z)
            have "length (stdin (snd (load_state en pr_key w2))) \<le> length (stdin w2)"
              using "1.IH"[OF None y[symmetric] \<open>r1 = Inr b\<close> _ o[symmetric] Inr] True by simp
            with True \<open>r1 = Inr b\<close> Inr None y o le1 eq2 show ?thesis
              by (subst load_state.simps) simp
          qed
        qed
      qed
    qed
  qed
  then show ?thesis by (simp add: reads_forward_def)
qed

lemma reads_forward_cmd_status [simp]: "reads_forward (cmd_status en k)"
  unfolding cmd_status_def
  by (intro reads_forward_bind) (simp_all add: Let_def split: option.splits sum.splits)

lemma reads_forward_cmd_review [simp]: "reads_forward (cmd_review en p mode k)"
  unfolding cmd_review_def
  by (auto intro!: reads_forward_bind simp: Let_def split: option.splits)

lemma reads_forward_valid_id [simp]: "reads_forward (valid_id paths i)"
  unfolding valid_id_def by (auto intro!: reads_forward_bind)

lemma reads_forward_selected_path [simp]: "reads_forward (selected_path paths i)"
  unfolding selected_path_def by (auto intro!: reads_forward_bind)

lemma reads_forward_print_files [simp]: "reads_forward (print_files en paths ids)"
  by (induction ids) (auto intro!: reads_forward_bind)

lemma reads_forward_review_files [simp]: "reads_forward (review_files en paths k mode acc ids)"
  by (induction ids arbitrary: acc) (auto intro!: reads_forward_bind)


section \<open>Interactive session: commands and loop\<close>

definition prints :: "msg list \<Rightarrow> unit io" where
  "prints ms w = (Inr (), w\<lparr>stdout := stdout w @ ms\<rparr>)"

text \<open>\<^verbatim>\<open>state["files"].get(path, {}).get("lines", 0)\<close> and \<^verbatim>\<open>.get("reviewed")\<close>.\<close>

definition listed_lines :: "review_state option \<Rightarrow> string \<Rightarrow> int" where
  "listed_lines st p =
     (case st of None \<Rightarrow> 0
      | Some state \<Rightarrow> (case map_of (files state) p of None \<Rightarrow> 0 | Some e \<Rightarrow> lines e))"

definition listed_reviewed :: "review_state option \<Rightarrow> string \<Rightarrow> bool" where
  "listed_reviewed st p =
     (case st of None \<Rightarrow> False
      | Some state \<Rightarrow> (case map_of (files state) p of None \<Rightarrow> False | Some e \<Rightarrow> reviewed e))"

definition list_all_files :: "env \<Rightarrow> string list \<Rightarrow> string \<Rightarrow> unit io" where
  "list_all_files en paths pr_key =
     bind_io (load_state en pr_key) (\<lambda>st.
       prints (map (\<lambda>(idx, p). MsgListLine idx p (listed_lines st p))
                 (zip [1 ..< Suc (length paths)] paths)))"

definition list_unreviewed :: "env \<Rightarrow> string list \<Rightarrow> string \<Rightarrow> unit io" where
  "list_unreviewed en paths pr_key =
     bind_io (load_state en pr_key) (\<lambda>st.
       prints (map (\<lambda>(idx, p). MsgListLine idx p (listed_lines st p))
                 (filter (\<lambda>(idx, p). \<not> listed_reviewed st p)
                    (zip [1 ..< Suc (length paths)] paths))))"

text \<open>\<^verbatim>\<open>str.split()\<close>: the maximal runs of characters that are not blanks.\<close>

fun split_ws :: "string \<Rightarrow> string \<Rightarrow> string list" where
  "split_ws cur [] = (if cur = [] then [] else [cur])"
| "split_ws cur (c # cs) =
     (if py_isspace c then (if cur = [] then split_ws [] cs else cur # split_ws [] cs)
      else split_ws (cur @ [c]) cs)"

definition py_split :: "string \<Rightarrow> string list" where
  "py_split s = split_ws [] s"

text \<open>
  Lines 253 to 260: the command table and the call. The result is what the loop adds to
  \<^verbatim>\<open>approved\<close>. Unpacking \<^verbatim>\<open>cmd, *ids\<close> from no token at all raises ValueError.
\<close>

definition dispatch :: "env \<Rightarrow> string list \<Rightarrow> string \<Rightarrow> string list \<Rightarrow> string list io" where
  "dispatch en paths pr_key tokens =
     (case tokens of
        [] \<Rightarrow> raise_io ValueError
      | cmd # ids \<Rightarrow>
          if cmd = ''p'' \<or> cmd = ''print''
          then bind_io (print_files en paths ids) (\<lambda>_. return_io [])
          else if cmd = ''rs'' then review_files en paths pr_key ''skim'' [] ids
          else if cmd = ''rd'' then review_files en paths pr_key ''deep'' [] ids
          else if cmd = ''ls'' then bind_io (list_all_files en paths pr_key) (\<lambda>_. return_io [])
          else if cmd = ''lsu'' then bind_io (list_unreviewed en paths pr_key) (\<lambda>_. return_io [])
          else bind_io (print MsgUnknownCommand) (\<lambda>_. return_io []))"

definition session_end :: "string list \<Rightarrow> unit io" where
  "session_end approved =
     (if approved \<noteq> [] then prints (MsgApprovedHeader # map MsgApproved approved)
      else return_io ())"

lemma reads_forward_prints [simp]: "reads_forward (prints ms)"
  by (simp add: reads_forward_def prints_def)

lemma reads_forward_if:
  "reads_forward a \<Longrightarrow> reads_forward b \<Longrightarrow> reads_forward (if c then a else b)"
  by simp

lemma reads_forward_list_all_files [simp]: "reads_forward (list_all_files en paths k)"
  unfolding list_all_files_def by (intro reads_forward_bind) simp_all

lemma reads_forward_list_unreviewed [simp]: "reads_forward (list_unreviewed en paths k)"
  unfolding list_unreviewed_def by (intro reads_forward_bind) simp_all

lemma reads_forward_dispatch [simp]: "reads_forward (dispatch en paths k tokens)"
proof (cases tokens)
  case Nil
  then show ?thesis by (simp add: dispatch_def)
next
  case (Cons cmd ids)
  show ?thesis
    unfolding dispatch_def Cons list.case
    by (intro reads_forward_if reads_forward_bind reads_forward_print_files
        reads_forward_review_files reads_forward_list_all_files reads_forward_list_unreviewed
        reads_forward_return reads_forward_print)
qed

function session_loop :: "env \<Rightarrow> string list \<Rightarrow> string \<Rightarrow> string list \<Rightarrow> unit io" where
  "session_loop en paths pr_key approved w =
     (case input ''> '' w of
        (Inl e, w1) \<Rightarrow> bind_io (print MsgNewline) (\<lambda>_. session_end approved) w1
      | (Inr l, w1) \<Rightarrow>
          (let entry = py_strip l
           in if entry = [] then session_end approved w1
              else
                (case dispatch en paths pr_key (py_split entry) w1 of
                   (Inl e, w2) \<Rightarrow> (Inl e, w2)
                 | (Inr res, w2) \<Rightarrow>
                     (case cmd_status en pr_key w2 of
                        (Inl e, w3) \<Rightarrow> (Inl e, w3)
                      | (Inr _, w3) \<Rightarrow> session_loop en paths pr_key (approved @ res) w3))))"
  by pat_completeness auto
termination
proof (relation "measure (\<lambda>(en, paths, pr_key, approved, w). length (stdin w))", goal_cases)
  case 1
  show ?case by simp
next
  case (2 en paths pr_key approved w x w1 l entry y w2 res z w3 u)
  have "length (stdin w1) < length (stdin w)"
    using stdin_input[of "''> ''" w l w1] 2 by simp
  moreover have "length (stdin w2) \<le> length (stdin w1)"
    using reads_forwardD[OF reads_forward_dispatch, of en paths pr_key "py_split entry" w1 y w2] 2 by simp
  moreover have "length (stdin w3) \<le> length (stdin w2)"
    using reads_forwardD[OF reads_forward_cmd_status, of en pr_key w2 z w3] 2 by simp
  ultimately show ?case by simp
qed

declare session_loop.simps [simp del]

definition interactive_session :: "env \<Rightarrow> string list \<Rightarrow> string \<Rightarrow> unit io" where
  "interactive_session en paths pr_key =
     bind_io (print MsgCommands) (\<lambda>_. session_loop en paths pr_key [])"

definition cmd_overview :: "env \<Rightarrow> config \<Rightarrow> bool \<Rightarrow> unit io" where
  "cmd_overview en cfg interactive =
     bind_io (overview_build en cfg interactive) (\<lambda>res.
       case res of (paths, pr_key) \<Rightarrow>
         if interactive then interactive_session en paths pr_key else return_io ())"

section \<open>Inputs and predicates of the statements\<close>

definition answers_yes :: "world \<Rightarrow> bool" where
  "answers_yes w = (case stdin w of [] \<Rightarrow> False | l # ls \<Rightarrow> py_lower (py_strip l) = ''y'')"

definition answers_no :: "world \<Rightarrow> bool" where
  "answers_no w = (case stdin w of [] \<Rightarrow> False | l # ls \<Rightarrow> py_lower (py_strip l) \<noteq> ''y'')"

text \<open>A selector the session accepts: decimal digits only, naming one of the files.\<close>

definition selector_ok :: "string list \<Rightarrow> string \<Rightarrow> bool" where
  "selector_ok paths i =
     (i \<noteq> [] \<and> list_all is_decimal_char i \<and> 1 \<le> digits_value i \<and>
      digits_value i \<le> int (length paths))"

text \<open>No character of the selector is one of the three superscript digits.\<close>

definition plain_selector :: "string \<Rightarrow> bool" where
  "plain_selector i = list_all (\<lambda>c. py_isdigit_char c = is_decimal_char c) i"

definition print_line :: "env \<Rightarrow> string list \<Rightarrow> string \<Rightarrow> msg" where
  "print_line en paths i =
     (if selector_ok paths i
      then MsgPrintFile (os_path_join (root en) (paths ! nat (digits_value i - 1)))
      else MsgInvalidId i)"


definition example_env :: env where
  "example_env =
     \<lparr>root = ''/repo'', pr_number = Some ''7'',
      pr_view = Some \<lparr>title = ''Fix'', body = Some [], pr_files = []\<rparr>,
      review_action = (\<lambda>_. None), jira_search = (\<lambda>_. None),
      config_file = \<lparr>jira_base = None\<rparr>\<rparr>"

definition example_state :: review_state where
  "example_state =
     \<lparr>files = [(''a.py'', \<lparr>lines = 10, reviewed = True\<rparr>),
               (''b.py'', \<lparr>lines = 30, reviewed = False\<rparr>)],
      total_lines = 40\<rparr>"

definition example_world :: "string list \<Rightarrow> world" where
  "example_world inp =
     \<lparr>disk = [state_file example_env ''7'' \<mapsto> example_state],
      stdin = inp, stdout = [], spawned = []\<rparr>"

definition two_files :: "pr_file list" where
  "two_files =
     [\<lparr>path = ''a.py'', additions = Some 5, deletions = Some 0\<rparr>,
      \<lparr>path = ''b.py'', additions = Some 0, deletions = Some 3\<rparr>]"

definition same_path_twice :: "pr_file list" where
  "same_path_twice =
     [\<lparr>path = ''a.py'', additions = Some 1, deletions = Some 0\<rparr>,
      \<lparr>path = ''a.py'', additions = Some 2, deletions = Some 0\<rparr>]"


section \<open>Facts about the operations\<close>

subsection \<open>The state store and the prompt\<close>

lemma load_state_present:
  "disk w (state_file en k) = Some s \<Longrightarrow> load_state en k w = (Inr (Some s), w)"
  by (subst load_state.simps) simp

lemma yn_no:
  "answers_no w \<Longrightarrow>
   yn q False w = (Inr False, w\<lparr>stdin := tl (stdin w), stdout := stdout w @ [MsgPrompt (q @ '' [y/N] '')]\<rparr>)"
  by (auto simp: answers_no_def yn_def input_def io_defs Let_def split: list.splits)

lemma yn_yes:
  "answers_yes w \<Longrightarrow>
   yn q False w = (Inr True, w\<lparr>stdin := tl (stdin w), stdout := stdout w @ [MsgPrompt (q @ '' [y/N] '')]\<rparr>)"
  by (auto simp: answers_yes_def yn_def input_def io_defs Let_def split: list.splits)

lemma answers_yes_example: "answers_yes (example_world [''y''])"
  by (simp add: answers_yes_def example_world_def py_strip_def py_isspace_def py_lower_def
      py_lower_char_def)

subsection \<open>Reviewing a file\<close>

lemma cmd_review_answer_no:
  assumes "disk w (state_file en pr_key) = Some state"
    and "map_of (files state) p = Some entry"
    and "\<not> reviewed entry"
    and "review_action en p = None"
    and "answers_no w"
  shows "cmd_review en p mode pr_key w =
           (Inr False, w\<lparr>spawned := spawned w @ [p], stdin := tl (stdin w),
                          stdout := stdout w @ [MsgPrompt ''Mark reviewed? [y/N] '']\<rparr>)"
proof -
  have "answers_no (w\<lparr>spawned := spawned w @ [p]\<rparr>)"
    using assms(5) by (simp add: answers_no_def)
  from yn_no[OF this, of "''Mark reviewed?''"] load_state_present[OF assms(1)] assms(2,3,4)
  show ?thesis
    by (simp add: cmd_review_def bind_io_def return_io_def run_review_cmd_def)
qed

lemma cmd_review_marks:
  assumes "disk w (state_file en k) = Some s"
    and "map_of (files s) p = Some e" and "\<not> reviewed e"
    and "review_action en p = None" and "answers_yes w"
  shows "cmd_review en p mode k w =
     (Inr True,
      w\<lparr>spawned := spawned w @ [p], stdin := tl (stdin w),
        stdout := stdout w @ [MsgPrompt ''Mark reviewed? [y/N] '', MsgPrKey k,
                              MsgStatePath (state_file en k), MsgMarked (lines e) mode],
        disk := (disk w)(state_file en k \<mapsto>
                  s\<lparr>files := AList.update p (e\<lparr>reviewed := True\<rparr>) (files s)\<rparr>)\<rparr>)"
proof -
  have "answers_yes (w\<lparr>spawned := spawned w @ [p]\<rparr>)"
    using assms(5) by (simp add: answers_yes_def)
  from yn_yes[OF this, of "''Mark reviewed?''"] load_state_present[OF assms(1)] assms(2,3,4)
  show ?thesis
    by (simp add: cmd_review_def bind_io_def return_io_def run_review_cmd_def save_state_eq
        print_def Let_def)
qed

lemma cmd_review_already:
  assumes "disk w (state_file en k) = Some s"
    and "map_of (files s) p = Some e" and "reviewed e"
  shows "cmd_review en p mode k w = (Inr False, w\<lparr>stdout := stdout w @ [MsgAlreadyReviewed p]\<rparr>)"
  using load_state_present[OF assms(1)] assms(2,3)
  by (simp add: cmd_review_def io_defs)




subsection \<open>The overview\<close>

lemma cmd_overview_nonempty:
  assumes "pr_number en = Some k" and "pr_view en = Some d" and "body d = Some b"
    and "pr_files d \<noteq> []"
  shows "cmd_overview en cfg i w =
     (Inl NameError, w\<lparr>stdout := stdout w @ overview_header en cfg (py_strip (title d)) (py_strip b)\<rparr>)"
  by (simp add: cmd_overview_def bind_io_def overview_build_nonempty[OF assms])

lemma example_overview:
  "overview_build example_env \<lparr>jira_base = None\<rparr> False (example_world []) =
     (Inr ([], ''7''),
      (example_world [])
        \<lparr>stdout := [MsgSummary ''Fix'', MsgFileSummary, MsgPrKey ''7'',
                     MsgStatePath (state_file example_env ''7''), MsgTotal 0 0],
          disk := [state_file example_env ''7'' \<mapsto> \<lparr>files = [], total_lines = 0\<rparr>]\<rparr>)"
  by (subst overview_build_eq[where k = "''7''" and b = "[]"
        and d = "\<lparr>title = ''Fix'', body = Some [], pr_files = []\<rparr>"])
    (simp_all add: example_env_def example_world_def overview_header_def jira_lines_def
      find_jira_def py_strip_def py_isspace_def)

text \<open>
  Lines 142 to 146 taken alone and folded over a file list: what the loop would gather
  if line 147 let it go on. The total adds every occurrence, the dict keeps one entry
  for each path.
\<close>

lemma entries_total:
  "total_lines (fst (foldl overview_entry acc fs)) =
     total_lines (fst acc) + sum_list (map file_lines fs)"
  by (induction fs arbitrary: acc) (auto simp: overview_entry_def split: prod.splits)

lemma entries_two_files:
  "foldl overview_entry (\<lparr>files = [], total_lines = 0\<rparr>, []) two_files =
     (\<lparr>files = [(''a.py'', \<lparr>lines = 5, reviewed = False\<rparr>),
                (''b.py'', \<lparr>lines = 3, reviewed = False\<rparr>)],
       total_lines = 8\<rparr>, [''a.py'', ''b.py''])"
  by (simp add: two_files_def overview_entry_def file_lines_def)

lemma entries_same_path_twice:
  "foldl overview_entry (\<lparr>files = [], total_lines = 0\<rparr>, []) same_path_twice =
     (\<lparr>files = [(''a.py'', \<lparr>lines = 2, reviewed = False\<rparr>)], total_lines = 3\<rparr>,
      [''a.py'', ''a.py''])"
  by (simp add: same_path_twice_def overview_entry_def file_lines_def)

subsection \<open>Binary64 rounding\<close>



lemma round_half_even_near:
  assumes "\<bar>y - of_int n\<bar> < 1 / 2"
  shows "round_half_even y = n"
proof (cases "of_int n \<le> y")
  case True
  with assms have "\<lfloor>y\<rfloor> = n" by (intro floor_unique) linarith+
  with assms True show ?thesis by (simp add: round_half_even_def Let_def)
next
  case False
  with assms have f: "\<lfloor>y\<rfloor> = n - 1" by (intro floor_unique) (simp, linarith)+
  from assms False have "1 / 2 < y - of_int (n - 1)" by simp
  with f show ?thesis by (simp add: round_half_even_def Let_def)
qed

lemma pow2_bitlen_lower: "0 < a \<Longrightarrow> (2::rat) powi (bitlen a - 1) \<le> of_int a"
proof -
  assume a: "0 < a"
  then have "1 \<le> bitlen a" by (simp add: bitlen_alt_def)
  then have "(2::rat) powi (bitlen a - 1) = 2 ^ nat (bitlen a - 1)"
    by (simp add: power_int_nonneg_exp)
  also have "\<dots> = of_int (2 ^ nat (bitlen a - 1))" by simp
  also have "\<dots> \<le> of_int a"
    using bitlen_bounds[OF a] by (subst of_int_le_iff) simp
  finally show ?thesis .
qed

lemma pow2_bitlen_upper: "0 < a \<Longrightarrow> of_int a < (2::rat) powi (bitlen a)"
proof -
  assume a: "0 < a"
  have "(of_int a :: rat) < of_int (2 ^ nat (bitlen a))"
    using bitlen_bounds[OF a] by (subst of_int_less_iff) simp
  also have "\<dots> = 2 powi (bitlen a)"
    by (simp add: power_int_nonneg_exp bitlen_nonneg)
  finally show ?thesis .
qed

lemma binade_bounds:
  assumes "x \<noteq> 0"
  shows "2 powi (binade x) \<le> \<bar>x\<bar>" and "\<bar>x\<bar> < 2 powi (binade x + 1)"
proof -
  obtain p q where pq: "quotient_of x = (p, q)" by (cases "quotient_of x")
  then have q: "0 < q" and x: "x = of_int p / of_int q"
    using quotient_of_denom_pos quotient_of_div by auto
  from x assms have p: "0 < \<bar>p\<bar>" by auto
  define d where "d = bitlen \<bar>p\<bar> - bitlen q"
  have ax: "\<bar>x\<bar> = of_int \<bar>p\<bar> / of_int q" using q by (simp add: x)
  have lo: "(2::rat) powi (d - 1) \<le> \<bar>x\<bar>"
  proof -
    have "(2::rat) powi (d - 1) = 2 powi (bitlen \<bar>p\<bar> - 1) / 2 powi (bitlen q)"
      by (simp add: d_def power_int_diff)
    also have "\<dots> \<le> of_int \<bar>p\<bar> / 2 powi (bitlen q)"
      using pow2_bitlen_lower[OF p] by (simp add: divide_right_mono)
    also have "\<dots> \<le> of_int \<bar>p\<bar> / of_int q"
      using pow2_bitlen_upper[OF q] q p by (intro divide_left_mono) (auto simp: less_imp_le)
    finally show ?thesis by (simp add: ax)
  qed
  have hi: "\<bar>x\<bar> < (2::rat) powi (d + 1)"
  proof -
    have "\<bar>x\<bar> < 2 powi (bitlen \<bar>p\<bar>) / of_int q"
      using pow2_bitlen_upper[OF p] q by (simp add: ax divide_strict_right_mono)
    also have "\<dots> \<le> 2 powi (bitlen \<bar>p\<bar>) / 2 powi (bitlen q - 1)"
      using pow2_bitlen_lower[OF q] q by (intro divide_left_mono) (auto simp: zero_less_mult_iff)
    also have "\<dots> = 2 powi (d + 1)"
      by (simp add: d_def power_int_diff[symmetric] algebra_simps)
    finally show ?thesis .
  qed
  have b: "binade x = (if 2 powi d \<le> \<bar>x\<bar> then d else d - 1)"
    by (simp add: binade_def pq d_def Let_def)
  show "2 powi (binade x) \<le> \<bar>x\<bar>" using lo by (simp add: b)
  show "\<bar>x\<bar> < 2 powi (binade x + 1)" using hi by (auto simp: b not_le)
qed

lemma pow2_less_D: "(2::rat) powi m < 2 powi n \<Longrightarrow> m < n"
proof (rule ccontr)
  assume lt: "(2::rat) powi m < 2 powi n" and "\<not> m < n"
  then have "n \<le> m" by simp
  from power_int_increasing[OF this, of "2::rat"] lt show False by simp
qed

lemma pow2_le_abs_nonzero: "(2::rat) powi e \<le> \<bar>x\<bar> \<Longrightarrow> x \<noteq> 0"
proof -
  assume a: "(2::rat) powi e \<le> \<bar>x\<bar>"
  have "(0::rat) < 2 powi e" by simp
  with a have "0 < \<bar>x\<bar>" by linarith
  then show ?thesis by simp
qed

lemma binade_unique:
  assumes "2 powi e \<le> \<bar>x\<bar>" and "\<bar>x\<bar> < 2 powi (e + 1)"
  shows "binade x = e"
proof -
  from assms(1) have x: "x \<noteq> 0" by (rule pow2_le_abs_nonzero)
  from binade_bounds[OF x] assms
  have "(2::rat) powi e < 2 powi (binade x + 1)" "(2::rat) powi (binade x) < 2 powi (e + 1)"
    by linarith+
  then have "e < binade x + 1" "binade x < e + 1"
    by (auto dest: pow2_less_D)
  then show ?thesis by simp
qed





lemma round_binary64_in_binade:
  assumes "2 powi e \<le> \<bar>x\<bar>" and "\<bar>x\<bar> < 2 powi (e + 1)" and "- 1022 \<le> e"
    and "\<bar>x / 2 powi (e - 52) - of_int n\<bar> < 1 / 2"
  shows "round_binary64 x = of_int n * 2 powi (e - 52)"
  using binade_unique[OF assms(1,2)] pow2_le_abs_nonzero[OF assms(1)] assms(3)
    round_half_even_near[OF assms(4)]
  by (simp add: round_binary64_def Let_def max_def)


lemma below_overflow: "x \<le> 400 \<Longrightarrow> \<not> 2 ^ 1024 \<le> (x::rat)"
proof -
  assume x: "x \<le> 400"
  have "(2::rat) ^ 9 \<le> 2 ^ 1024" by (rule power_increasing) simp_all
  then have "(512::rat) \<le> 2 ^ 1024" by simp
  with x show ?thesis by linarith
qed



lemma percent_eval:
  assumes "t \<noteq> 0"
    and "round_binary64 (of_int r / of_int t) = q" and "\<bar>q\<bar> \<le> 400"
    and "round_binary64 (q * 100) = y" and "of_int n \<le> y" and "y < of_int n + 1"
    and "0 \<le> n" and "n \<le> 300"
  shows "percent r t = Inr n"
proof -
  have "\<not> 2 ^ 1024 \<le> \<bar>q\<bar>" using below_overflow[OF assms(3)] .
  then have d: "int_truediv r t = Inr q" using assms(1,2) by (simp add: int_truediv_def Let_def)
  have y0: "0 \<le> y" using assms(5,7) by (simp add: order_trans[of 0 "of_int n" y])
  have "(of_int n :: rat) \<le> 300" using assms(8) by simp
  with assms(6) have "y \<le> 400" by linarith
  from below_overflow[OF this] y0 have "\<not> 2 ^ 1024 \<le> \<bar>y\<bar>" by simp
  then have m: "float_mul q 100 = Finite y" using assms(4) by (simp add: float_mul_def Let_def)
  have "\<lfloor>y\<rfloor> = n" using assms(5,6) by (intro floor_unique)
  with y0 assms(1) show ?thesis by (simp add: percent_def d m int_of_float_def)
qed







lemma quotient_29_100: "round_binary64 (of_int 29 / of_int 100) = 5224175567749775 / 18014398509481984"
  by (subst round_binary64_in_binade[where e = "- 2" and n = 5224175567749775]) simp_all

lemma product_29_100:
  "round_binary64 (5224175567749775 / 18014398509481984 * 100) = 8162774324609023 / 281474976710656"
  by (subst round_binary64_in_binade[where e = 4 and n = 8162774324609023]) simp_all

lemma percent_29_100: "percent 29 100 = Inr 28"
  by (rule percent_eval[OF _ quotient_29_100 _ product_29_100]) simp_all

lemma cmd_status_present:
  assumes "disk w (state_file en k) = Some s"
    and "percent (reviewed_lines s) (total_lines s) = Inr pct"
  shows "cmd_status en k w =
     (Inr (), w\<lparr>stdout := stdout w @ [MsgStatus (total_lines s - reviewed_lines s) pct (files_left s)]\<rparr>)"
  using load_state_present[OF assms(1)] assms(2)
  by (simp add: cmd_status_def io_defs Let_def)

text \<open>
  The files left are the unreviewed entries, whatever their line counts: a state with one
  unreviewed file of no lines has total 0 and still one file left.
\<close>

lemma cmd_status_file_without_lines:
  assumes "disk w (state_file en k) =
             Some \<lparr>files = [(p, \<lparr>lines = 0, reviewed = False\<rparr>)], total_lines = 0\<rparr>"
  shows "cmd_status en k w = (Inr (), w\<lparr>stdout := stdout w @ [MsgStatus 0 100 1]\<rparr>)"
proof -
  let ?s = "\<lparr>files = [(p, \<lparr>lines = 0, reviewed = False\<rparr>)], total_lines = 0\<rparr>"
  have "percent (reviewed_lines ?s) (total_lines ?s) = Inr 100" by (simp add: percent_def)
  from cmd_status_present[OF assms this] show ?thesis
    by (simp add: reviewed_lines_def files_left_def)
qed

subsection \<open>Selectors\<close>

lemma decimal_not_space: "is_decimal_char c \<Longrightarrow> \<not> py_isspace c"
  by (auto simp: is_decimal_char_def py_isspace_def Let_def)

lemma decimal_not_sign:
  "is_decimal_char c \<Longrightarrow> c \<noteq> CHR ''+'' \<and> c \<noteq> CHR ''-'' \<and> c \<noteq> CHR ''_''"
  by (auto simp: is_decimal_char_def)

lemma py_strip_id:
  assumes "s \<noteq> []" and "\<not> py_isspace (hd s)" and "\<not> py_isspace (last s)"
  shows "py_strip s = s"
proof -
  from assms(1,2) have 1: "dropWhile py_isspace s = s" by (cases s) simp_all
  from assms(1,3) have 2: "dropWhile py_isspace (rev s) = rev s"
    by (cases "rev s") (simp_all add: hd_rev[symmetric])
  show ?thesis by (simp add: py_strip_def 1 2)
qed

lemma decimal_literal_ok:
  "s \<noteq> [] \<Longrightarrow> list_all is_decimal_char s \<Longrightarrow> int_literal_ok s"
  by (induction s rule: int_literal_ok.induct) (auto dest: decimal_not_sign)

lemma decimal_filter:
  "list_all is_decimal_char s \<Longrightarrow> filter (\<lambda>c. c \<noteq> CHR ''_'') s = s"
  by (induction s) (auto dest: decimal_not_sign)

lemma py_int_decimal:
  assumes "s \<noteq> []" and "list_all is_decimal_char s"
  shows "py_int s = Inr (digits_value s)"
proof -
  from assms have h: "is_decimal_char (hd s)" "is_decimal_char (last s)"
    by (cases s, auto simp: list_all_iff)+
  then have "py_strip s = s"
    using assms(1) by (intro py_strip_id) (auto dest: decimal_not_space)
  moreover from h(1) have "hd s \<noteq> CHR ''+''" "hd s \<noteq> CHR ''-''"
    by (auto dest: decimal_not_sign)
  ultimately show ?thesis
    using assms by (simp add: py_int_def Let_def decimal_literal_ok decimal_filter)
qed

lemma plain_isdigit: "plain_selector i \<Longrightarrow> py_isdigit i = (i \<noteq> [] \<and> list_all is_decimal_char i)"
  by (auto simp: plain_selector_def py_isdigit_def list_all_iff)

lemma valid_id_plain:
  assumes "plain_selector i"
  shows "valid_id paths i w =
     (if selector_ok paths i then (Inr True, w)
      else (Inr False, w\<lparr>stdout := stdout w @ [MsgInvalidId i]\<rparr>))"
proof (cases "i \<noteq> [] \<and> list_all is_decimal_char i")
  case True
  then have "py_int i = Inr (digits_value i)" by (simp add: py_int_decimal)
  with True plain_isdigit[OF assms] show ?thesis
    by (auto simp: valid_id_def selector_ok_def lift_io_def io_defs)
next
  case False
  with plain_isdigit[OF assms] show ?thesis
    by (auto simp: valid_id_def selector_ok_def io_defs)
qed

lemma selected_path_ok:
  assumes "selector_ok paths i"
  shows "selected_path paths i w = (Inr (paths ! nat (digits_value i - 1)), w)"
proof -
  from assms have "py_int i = Inr (digits_value i)"
    by (simp add: selector_ok_def py_int_decimal)
  with assms show ?thesis
    by (simp add: selected_path_def selector_ok_def lift_io_def io_defs py_index_def)
qed

text \<open>
  Without a superscript digit among the selectors, printing reports each selector that
  is not accepted, in its place, and goes on with the others.
\<close>

lemma print_files_plain:
  assumes "list_all plain_selector ids"
  shows "print_files en paths ids w =
     (Inr (), w\<lparr>stdout := stdout w @ map (print_line en paths) ids\<rparr>)"
  using assms
proof (induction ids arbitrary: w)
  case Nil
  show ?case by (simp add: return_io_def)
next
  case (Cons i ids)
  then have p: "plain_selector i" and rest: "list_all plain_selector ids" by simp_all
  show ?case
  proof (cases "selector_ok paths i")
    case True
    then show ?thesis
      by (simp add: valid_id_plain[OF p] selected_path_ok bind_io_def print_def print_line_def
          Cons.IH[OF rest])
  next
    case False
    then show ?thesis
      by (simp add: valid_id_plain[OF p] bind_io_def print_def print_line_def Cons.IH[OF rest])
  qed
qed

lemma print_files_example:
  "print_files en [p1, p2, p3] [''1'', ''9'', ''x'', ''2''] w =
     (Inr (), w\<lparr>stdout := stdout w @ [MsgPrintFile (os_path_join (root en) p1),
                                        MsgInvalidId ''9'', MsgInvalidId ''x'',
                                        MsgPrintFile (os_path_join (root en) p2)]\<rparr>)"
  by (simp add: valid_id_def selected_path_def py_isdigit_def py_isdigit_char_def
      is_decimal_char_def py_int_def py_strip_def py_isspace_def digits_value_def py_index_def
      lift_io_def io_defs Let_def)

lemma valid_id_superscript:
  "valid_id paths [CHR 0xB2] w = (Inl ValueError, w)"
  by (simp add: valid_id_def py_isdigit_def py_isdigit_char_def is_decimal_char_def py_int_def
      py_strip_def py_isspace_def lift_io_def io_defs)

section \<open>The claims\<close>

text \<open>
  Claim C1, on the code. With the two files \<^verbatim>\<open>a.py\<close> (+5, -0) and \<^verbatim>\<open>b.py\<close> (+0, -3) the
  overview raises NameError in the first round of its loop, whatever the other inputs
  are, and no state file is written or changed.
\<close>

theorem cmd_overview_two_files_NameError:
  "fst (cmd_overview
         (en\<lparr>pr_number := Some k,
             pr_view := Some \<lparr>title = t, body = Some b, pr_files = two_files\<rparr>\<rparr>) cfg i w)
     = Inl NameError \<and>
   disk (snd (cmd_overview
         (en\<lparr>pr_number := Some k,
             pr_view := Some \<lparr>title = t, body = Some b, pr_files = two_files\<rparr>\<rparr>) cfg i w))
     = disk w"
proof -
  let ?d = "\<lparr>title = t, body = Some b, pr_files = two_files\<rparr>"
  let ?en = "en\<lparr>pr_number := Some k, pr_view := Some ?d\<rparr>"
  have "cmd_overview ?en cfg i w =
     (Inl NameError, w\<lparr>stdout := stdout w @ overview_header ?en cfg (py_strip (title ?d)) (py_strip b)\<rparr>)"
    by (rule cmd_overview_nonempty[where k = k]) (simp_all add: two_files_def)
  then show ?thesis by simp
qed






text \<open>
  Claim C4, amended. For a path among the files of the state on disk that is already
  reviewed, or whose review action runs and is answered with yes, the entry on disk is
  reviewed after the call with its line count kept, the total and every other entry are
  as before, and a second call prints the already-reviewed line, returns False and
  changes nothing else.
\<close>

theorem cmd_review_twice:
  assumes "disk w (state_file en k) = Some s" and "map_of (files s) p = Some e"
    and "reviewed e \<or> (review_action en p = None \<and> answers_yes w)"
  shows "\<exists>s1. disk (snd (cmd_review en p mode k w)) (state_file en k) = Some s1 \<and>
              map_of (files s1) p = Some (e\<lparr>reviewed := True\<rparr>) \<and>
              total_lines s1 = total_lines s \<and>
              (\<forall>q. q \<noteq> p \<longrightarrow> map_of (files s1) q = map_of (files s) q) \<and>
              cmd_review en p mode' k (snd (cmd_review en p mode k w)) =
                (Inr False, (snd (cmd_review en p mode k w))
                   \<lparr>stdout := stdout (snd (cmd_review en p mode k w)) @ [MsgAlreadyReviewed p]\<rparr>)"
proof (cases "reviewed e")
  case True
  let ?w1 = "w\<lparr>stdout := stdout w @ [MsgAlreadyReviewed p]\<rparr>"
  have first: "cmd_review en p mode k w = (Inr False, ?w1)"
    by (rule cmd_review_already[OF assms(1,2) True])
  have d1: "disk ?w1 (state_file en k) = Some s" using assms(1) by simp
  have e: "e\<lparr>reviewed := True\<rparr> = e" using True by simp
  from cmd_review_already[OF d1 assms(2) True, of mode'] first d1 assms(2) e
  show ?thesis by simp
next
  case False
  with assms(3) have ok: "review_action en p = None" "answers_yes w" by simp_all
  let ?e1 = "e\<lparr>reviewed := True\<rparr>"
  let ?s1 = "s\<lparr>files := AList.update p ?e1 (files s)\<rparr>"
  let ?w1 = "w\<lparr>spawned := spawned w @ [p], stdin := tl (stdin w),
        stdout := stdout w @ [MsgPrompt ''Mark reviewed? [y/N] '', MsgPrKey k,
                              MsgStatePath (state_file en k), MsgMarked (lines e) mode],
        disk := (disk w)(state_file en k \<mapsto> ?s1)\<rparr>"
  have first: "cmd_review en p mode k w = (Inr True, ?w1)"
    by (rule cmd_review_marks[OF assms(1,2) False ok])
  have d1: "disk ?w1 (state_file en k) = Some ?s1" by simp
  have m1: "map_of (files ?s1) p = Some ?e1" by (simp add: update_conv')
  have r1: "reviewed ?e1" by simp
  have others: "\<forall>q. q \<noteq> p \<longrightarrow> map_of (files ?s1) q = map_of (files s) q"
    by (simp add: update_conv')
  from cmd_review_already[OF d1 m1 r1, of mode'] first d1 m1 others
  show ?thesis by simp
qed

theorem cmd_review_twice_witness:
  "disk (example_world [''y'']) (state_file example_env ''7'') = Some example_state \<and>
   map_of (files example_state) ''b.py'' = Some \<lparr>lines = 30, reviewed = False\<rparr> \<and>
   review_action example_env ''b.py'' = None \<and> answers_yes (example_world [''y'']) \<and>
   (\<exists>s1. disk (snd (cmd_review example_env ''b.py'' ''skim'' ''7'' (example_world [''y''])))
            (state_file example_env ''7'') = Some s1 \<and>
         map_of (files s1) ''b.py'' = Some \<lparr>lines = 30, reviewed = True\<rparr> \<and>
         total_lines s1 = 40 \<and>
         map_of (files s1) ''a.py'' = Some \<lparr>lines = 10, reviewed = True\<rparr> \<and>
         fst (cmd_review example_env ''b.py'' ''deep'' ''7''
                (snd (cmd_review example_env ''b.py'' ''skim'' ''7'' (example_world [''y''])))) =
           Inr False)"
proof -
  have h1: "disk (example_world [''y'']) (state_file example_env ''7'') = Some example_state"
    by (simp add: example_world_def)
  have h2: "map_of (files example_state) ''b.py'' = Some \<lparr>lines = 30, reviewed = False\<rparr>"
    by (simp add: example_state_def)
  have h3: "review_action example_env ''b.py'' = None" by (simp add: example_env_def)
  have h4: "reviewed \<lparr>lines = 30, reviewed = False\<rparr> \<or>
            (review_action example_env ''b.py'' = None \<and> answers_yes (example_world [''y'']))"
    using h3 answers_yes_example by simp
  from cmd_review_twice[OF h1 h2 h4, of "''skim''" "''deep''"]
  obtain s1 where s1:
    "disk (snd (cmd_review example_env ''b.py'' ''skim'' ''7'' (example_world [''y''])))
       (state_file example_env ''7'') = Some s1"
    "map_of (files s1) ''b.py'' = Some \<lparr>lines = 30, reviewed = True\<rparr>"
    "total_lines s1 = total_lines example_state"
    "\<forall>q. q \<noteq> ''b.py'' \<longrightarrow> map_of (files s1) q = map_of (files example_state) q"
    "fst (cmd_review example_env ''b.py'' ''deep'' ''7''
                (snd (cmd_review example_env ''b.py'' ''skim'' ''7'' (example_world [''y''])))) =
           Inr False"
    by auto
  from s1(4) have "map_of (files s1) ''a.py'' = map_of (files example_state) ''a.py''" by simp
  with s1 h1 h2 h3 answers_yes_example show ?thesis
    by (simp add: example_state_def)
qed

text \<open>
  Claim C4 as stated fails where the question is answered with no: the first call leaves
  the entry unreviewed, and the second call asks again instead of printing the
  already-reviewed line.
\<close>

theorem cmd_review_declined_twice_counterexample:
  "disk (example_world [''n'', ''n'']) (state_file example_env ''7'') = Some example_state \<and>
   map_of (files example_state) ''b.py'' = Some \<lparr>lines = 30, reviewed = False\<rparr> \<and>
   cmd_review example_env ''b.py'' ''skim'' ''7'' (example_world [''n'', ''n'']) =
     (Inr False, (example_world [''n''])
        \<lparr>spawned := [''b.py''], stdout := [MsgPrompt ''Mark reviewed? [y/N] '']\<rparr>) \<and>
   disk ((example_world [''n''])
        \<lparr>spawned := [''b.py''], stdout := [MsgPrompt ''Mark reviewed? [y/N] '']\<rparr>)
      (state_file example_env ''7'') = Some example_state \<and>
   cmd_review example_env ''b.py'' ''skim'' ''7''
     ((example_world [''n''])
        \<lparr>spawned := [''b.py''], stdout := [MsgPrompt ''Mark reviewed? [y/N] '']\<rparr>) =
     (Inr False, (example_world [])
        \<lparr>spawned := [''b.py'', ''b.py''],
          stdout := [MsgPrompt ''Mark reviewed? [y/N] '', MsgPrompt ''Mark reviewed? [y/N] '']\<rparr>)"
proof -
  let ?w0 = "example_world [''n'', ''n'']"
  let ?w1 = "(example_world [''n''])
        \<lparr>spawned := [''b.py''], stdout := [MsgPrompt ''Mark reviewed? [y/N] '']\<rparr>"
  have h1: "disk ?w0 (state_file example_env ''7'') = Some example_state"
    by (simp add: example_world_def)
  have h1': "disk ?w1 (state_file example_env ''7'') = Some example_state"
    by (simp add: example_world_def)
  have h2: "map_of (files example_state) ''b.py'' = Some \<lparr>lines = 30, reviewed = False\<rparr>"
    by (simp add: example_state_def)
  have h3: "\<not> reviewed \<lparr>lines = 30, reviewed = False\<rparr>" by simp
  have h4: "review_action example_env ''b.py'' = None" by (simp add: example_env_def)
  have h5: "answers_no ?w0" "answers_no ?w1"
    by (simp_all add: answers_no_def example_world_def py_strip_def py_isspace_def py_lower_def
        py_lower_char_def)
  from cmd_review_answer_no[OF h1 h2 h3 h4 h5(1), of "''skim''"]
    cmd_review_answer_no[OF h1' h2 h3 h4 h5(2), of "''skim''"] h1 h1' h2
  show ?thesis by (simp add: example_world_def)
qed

text \<open>
  Claim C5, on the code. The selector made of the one character U+00B2 passes
  \<^verbatim>\<open>isdigit\<close>, so \<^verbatim>\<open>int\<close> is called on it and raises ValueError: nothing is printed
  for it, and the valid selector after it is never reached, in printing and in reviewing
  alike.
\<close>

theorem selector_superscript_two_ValueError:
  "print_files en [p1, p2, p3] [[CHR 0xB2], ''1''] w = (Inl ValueError, w) \<and>
   review_files en [p1, p2, p3] pr_key mode [] [[CHR 0xB2], ''1''] w = (Inl ValueError, w)"
  by (simp add: valid_id_superscript bind_io_def)

text \<open>
  Claim C6. For a state just written by the overview whose total is 0, the status line
  reports 0 lines remaining, 100 percent reviewed and 0 files left.
\<close>

theorem status_of_fresh_state_without_lines:
  assumes "overview_build en cfg i w = (Inr (paths, k), w1)"
    and "disk w1 (state_file en k) = Some s" and "total_lines s = 0"
  shows "cmd_status en k w1 = (Inr (), w1\<lparr>stdout := stdout w1 @ [MsgStatus 0 100 0]\<rparr>)"
proof -
  from overview_build_Inr[OF assms(1)] assms(2)
  have s: "s = \<lparr>files = [], total_lines = 0\<rparr>" by simp
  from load_state_present[OF assms(2)] show ?thesis
    by (simp add: cmd_status_def io_defs s percent_def reviewed_lines_def files_left_def)
qed

theorem status_of_fresh_state_without_lines_witness:
  "\<exists>w1. overview_build example_env \<lparr>jira_base = None\<rparr> False (example_world []) =
           (Inr ([], ''7''), w1) \<and>
        disk w1 (state_file example_env ''7'') = Some \<lparr>files = [], total_lines = 0\<rparr> \<and>
        total_lines \<lparr>files = [], total_lines = 0\<rparr> = 0 \<and>
        cmd_status example_env ''7'' w1 = (Inr (), w1\<lparr>stdout := stdout w1 @ [MsgStatus 0 100 0]\<rparr>)"
proof -
  let ?w1 = "(example_world [])
        \<lparr>stdout := [MsgSummary ''Fix'', MsgFileSummary, MsgPrKey ''7'',
                     MsgStatePath (state_file example_env ''7''), MsgTotal 0 0],
          disk := [state_file example_env ''7'' \<mapsto> \<lparr>files = [], total_lines = 0\<rparr>]\<rparr>"
  have d: "disk ?w1 (state_file example_env ''7'') = Some \<lparr>files = [], total_lines = 0\<rparr>"
    by simp
  from status_of_fresh_state_without_lines[OF example_overview d] example_overview d
  show ?thesis by (intro exI[of _ ?w1]) simp
qed

text \<open>
  Claim C7. With a state on disk and a path that is not among its files, the review
  prints the unknown-file line and returns False; the state files, the input and the
  list of review actions run are as before.
\<close>

theorem cmd_review_unknown_file:
  assumes "disk w (state_file en pr_key) = Some state"
    and "p \<notin> fst ` set (files state)"
  shows "cmd_review en p mode pr_key w = (Inr False, w\<lparr>stdout := stdout w @ [MsgUnknownFile]\<rparr>)"
proof -
  from assms(2) have "map_of (files state) p = None" by (simp add: map_of_eq_None_iff)
  with load_state_present[OF assms(1)] show ?thesis
    by (simp add: cmd_review_def io_defs)
qed

theorem cmd_review_unknown_file_witness:
  "disk (example_world []) (state_file example_env ''7'') = Some example_state \<and>
   ''c.py'' \<notin> fst ` set (files example_state) \<and>
   cmd_review example_env ''c.py'' ''skim'' ''7'' (example_world []) =
     (Inr False, (example_world [])\<lparr>stdout := [MsgUnknownFile]\<rparr>)"
proof -
  have h1: "disk (example_world []) (state_file example_env ''7'') = Some example_state"
    by (simp add: example_world_def)
  have h2: "''c.py'' \<notin> fst ` set (files example_state)"
    by (simp add: example_state_def)
  from cmd_review_unknown_file[OF h1 h2, of "''skim''"] h1 h2 show ?thesis
    by (simp add: example_world_def)
qed


text \<open>
  Claim C9. With a state on disk, a path among its files that is not yet reviewed, and a
  review action that runs, an answer other than yes to the question makes the review
  return False; the state files are as before, so the flag on disk is still False.
\<close>

theorem cmd_review_declined:
  assumes "disk w (state_file en pr_key) = Some state"
    and "map_of (files state) p = Some entry"
    and "\<not> reviewed entry"
    and "review_action en p = None"
    and "answers_no w"
  shows "cmd_review en p mode pr_key w =
           (Inr False, w\<lparr>spawned := spawned w @ [p], stdin := tl (stdin w),
                          stdout := stdout w @ [MsgPrompt ''Mark reviewed? [y/N] '']\<rparr>)"
  using assms by (rule cmd_review_answer_no)

theorem cmd_review_declined_witness:
  "disk (example_world [''n'']) (state_file example_env ''7'') = Some example_state \<and>
   map_of (files example_state) ''b.py'' = Some \<lparr>lines = 30, reviewed = False\<rparr> \<and>
   review_action example_env ''b.py'' = None \<and>
   answers_no (example_world [''n'']) \<and>
   cmd_review example_env ''b.py'' ''deep'' ''7'' (example_world [''n'']) =
     (Inr False, (example_world [])\<lparr>spawned := [''b.py''],
                    stdout := [MsgPrompt ''Mark reviewed? [y/N] '']\<rparr>)"
proof -
  have h1: "disk (example_world [''n'']) (state_file example_env ''7'') = Some example_state"
    by (simp add: example_world_def)
  have h2: "map_of (files example_state) ''b.py'' = Some \<lparr>lines = 30, reviewed = False\<rparr>"
    by (simp add: example_state_def)
  have h3: "\<not> reviewed \<lparr>lines = 30, reviewed = False\<rparr>" by simp
  have h4: "review_action example_env ''b.py'' = None" by (simp add: example_env_def)
  have h5: "answers_no (example_world [''n''])"
    by (simp add: answers_no_def example_world_def py_strip_def py_isspace_def py_lower_def
        py_lower_char_def)
  from cmd_review_declined[OF h1 h2 h3 h4 h5, of "''deep''"] h1 h2 h4 h5 show ?thesis
    by (simp add: example_world_def)
qed

text \<open>
  Claim C10, on the code. With the path \<^verbatim>\<open>a.py\<close> listed twice the overview raises
  NameError in the first round of its loop, before the second occurrence is read, and no
  state file is written or changed.
\<close>

theorem cmd_overview_same_path_twice_NameError:
  "fst (cmd_overview
         (en\<lparr>pr_number := Some k,
             pr_view := Some \<lparr>title = t, body = Some b, pr_files = same_path_twice\<rparr>\<rparr>) cfg i w)
     = Inl NameError \<and>
   disk (snd (cmd_overview
         (en\<lparr>pr_number := Some k,
             pr_view := Some \<lparr>title = t, body = Some b, pr_files = same_path_twice\<rparr>\<rparr>) cfg i w))
     = disk w"
proof -
  let ?d = "\<lparr>title = t, body = Some b, pr_files = same_path_twice\<rparr>"
  let ?en = "en\<lparr>pr_number := Some k, pr_view := Some ?d\<rparr>"
  have "cmd_overview ?en cfg i w =
     (Inl NameError, w\<lparr>stdout := stdout w @ overview_header ?en cfg (py_strip (title ?d)) (py_strip b)\<rparr>)"
    by (rule cmd_overview_nonempty[where k = k]) (simp_all add: same_path_twice_def)
  then show ?thesis by simp
qed

end
